theory Spec2Isabelle
  imports Main
begin

section \<open>Failures\<close>

text \<open>
  The sources stop a run in ways that the model keeps as values: \<^verbatim>\<open>QLJS_ASSERT\<close> on a
  false condition, \<^verbatim>\<open>std::vector::at\<close> (and indexing) out of range, reading a variant
  through the wrong alternative, reading through a reference to an object whose lifetime
  has ended, and naming by its type an alternative of a variant whose two types are the
  same.
\<close>

datatype failure =
    Assertion_Failed
  | Out_Of_Range
  | Bad_Variant_Access
  | Dangling_Reference
  | Incorrect_Alternative

section \<open>container/result.h: \<^verbatim>\<open>Result<T, Error>\<close>\<close>

text \<open>
  \<^verbatim>\<open>Variant<Value_Type, Error> data_\<close>: a tagged union of two alternatives, the
  value at index 0 and the error at index 1. (\<^verbatim>\<open>container/variant.h\<close> is not among
  the sources; \<^verbatim>\<open>index()\<close>, \<^verbatim>\<open>get<0>\<close> and \<^verbatim>\<open>get<Error>\<close> have the meaning of
  \<^verbatim>\<open>std::variant\<close>.)
\<close>

datatype ('t, 'e) Variant = Alternative_0 't | Alternative_1 'e

fun variant_index :: "('t, 'e) Variant \<Rightarrow> nat" where
  "variant_index (Alternative_0 _) = 0"
| "variant_index (Alternative_1 _) = 1"

fun get_0 :: "('t, 'e) Variant \<Rightarrow> failure + 't" where
  "get_0 (Alternative_0 v) = Inr v"
| "get_0 (Alternative_1 _) = Inl Bad_Variant_Access"

fun get_Error :: "('t, 'e) Variant \<Rightarrow> failure + 'e" where
  "get_Error (Alternative_1 err) = Inr err"
| "get_Error (Alternative_0 _) = Inl Bad_Variant_Access"

text \<open>
  \<^verbatim>\<open>std::in_place_type<std::decay_t<E>>\<close> names the alternative whose type is the error
  type. When \<^verbatim>\<open>Value_Type\<close> and the error type are the same type, the comments of
  \<^verbatim>\<open>result.h\<close> call this construction incorrect, and which alternative it yields is
  decided by the variant, not by \<^verbatim>\<open>result.h\<close>. The model takes
  \<^verbatim>\<open>std::is_same_v<E, Value_Type>\<close> as the parameter \<open>same_type\<close> and constructs
  nothing when it holds.
\<close>

definition in_place_type_Error :: "bool \<Rightarrow> 'e \<Rightarrow> ('t, 'e) Variant option" where
  "in_place_type_Error same_type err = (if same_type then None else Some (Alternative_1 err))"

text \<open>\<^verbatim>\<open>class Result_Base\<close> has the one member \<^verbatim>\<open>data_\<close>.\<close>

record ('t, 'e) Result_Base =
  data :: "('t, 'e) Variant"

text \<open>
  \<^verbatim>\<open>struct Result_Error { Error&& e; }\<close> holds a reference, not an error
  (\<^verbatim>\<open>static_assert(std::is_reference_v<Error&&>)\<close>), and the error referred to may be
  the one inside the result that is assigned to. So objects live in a memory, at
  addresses: the errors that are objects of their own (locals, temporaries), and the
  results. A reference to an error is either to such an object or to the error
  alternative that the result at an address holds, which is what \<^verbatim>\<open>error()\<close> returns.
\<close>

type_synonym address = nat

datatype reference = Error_Object address | Error_Of_Result address

record ('t, 'e) memory =
  error_objects :: "address \<rightharpoonup> 'e"
  results :: "address \<rightharpoonup> ('t, 'e) Result_Base"

text \<open>
  Reading through a reference gives the error it refers to. A reference to an object
  whose lifetime has ended (no object at the address, or a result that does not hold an
  error) is dangling; reading through it is undefined behaviour, kept as a failure.
\<close>

definition read_reference :: "('t, 'e) memory \<Rightarrow> reference \<Rightarrow> failure + 'e" where
  "read_reference m p =
     (case p of
        Error_Object a \<Rightarrow>
          (case error_objects m a of Some v \<Rightarrow> Inr v | None \<Rightarrow> Inl Dangling_Reference)
      | Error_Of_Result a \<Rightarrow>
          (case results m a of
             Some r \<Rightarrow>
               (case data r of
                  Alternative_1 v \<Rightarrow> Inr v
                | Alternative_0 _ \<Rightarrow> Inl Dangling_Reference)
           | None \<Rightarrow> Inl Dangling_Reference))"

definition write_reference :: "('t, 'e) memory \<Rightarrow> reference \<Rightarrow> 'e \<Rightarrow> ('t, 'e) memory" where
  "write_reference m p v =
     (case p of
        Error_Object a \<Rightarrow> m\<lparr>error_objects := (error_objects m)(a \<mapsto> v)\<rparr>
      | Error_Of_Result a \<Rightarrow>
          (case results m a of
             Some r \<Rightarrow> m\<lparr>results := (results m)(a \<mapsto> r\<lparr>data := Alternative_1 v\<rparr>)\<rparr>
           | None \<Rightarrow> m))"

text \<open>
  \<^verbatim>\<open>Result_Error<E>\<close>: the reference \<^verbatim>\<open>e\<close> (\<open>e_ref\<close>), and whether \<^verbatim>\<open>E\<close> is an lvalue or an
  rvalue reference type. \<^verbatim>\<open>failed_result(Error&& e)\<close> takes a forwarding reference and
  returns \<^verbatim>\<open>Result_Error<Error&&>{.e = std::forward<Error&&>(e)}\<close>: it keeps the
  reference and its value category, and copies nothing.
\<close>

datatype value_category = Lvalue | Rvalue

record Result_Error =
  e_ref :: reference
  category :: value_category

definition failed_result :: "value_category \<Rightarrow> reference \<Rightarrow> Result_Error" where
  "failed_result c p = \<lparr>e_ref = p, category = c\<rparr>"

text \<open>
  \<^verbatim>\<open>std::forward<E>(error.e)\<close>, as the argument from which the new error is constructed:
  the error read through the reference. From an lvalue the new error is copied. From an
  rvalue it is moved, which leaves the object referred to in its moved-from state; what
  that state is belongs to the error type and is the parameter \<open>moved_from\<close>.
\<close>

definition forward_error ::
  "('e \<Rightarrow> 'e) \<Rightarrow> ('t, 'e) memory \<Rightarrow> Result_Error \<Rightarrow> failure + 'e \<times> ('t, 'e) memory" where
  "forward_error moved_from m error =
     (case read_reference m (e_ref error) of
        Inl f \<Rightarrow> Inl f
      | Inr v \<Rightarrow>
          Inr (v, case category error of
                    Lvalue \<Rightarrow> m
                  | Rvalue \<Rightarrow> write_reference m (e_ref error) (moved_from v)))"

text \<open>
  The constructor from value arguments:
  \<^verbatim>\<open>Result_Base(Args&&... args) : data_(std::in_place_index<0>, args...)\<close>.
\<close>

definition Result_from_value :: "'t \<Rightarrow> ('t, 'e) Result_Base" where
  "Result_from_value v = \<lparr>data = Alternative_0 v\<rparr>"

text \<open>
  The constructor from a failure, for the result at the address \<open>this\<close>:
  \<^verbatim>\<open>Result_Base(Result_Error<E>&& error)
  : data_(std::in_place_type<std::decay_t<E>>, std::forward<E>(error.e))\<close>.
\<close>

definition Result_from_error ::
  "bool \<Rightarrow> ('e \<Rightarrow> 'e) \<Rightarrow> ('t, 'e) memory \<Rightarrow> address \<Rightarrow> Result_Error \<Rightarrow>
   failure + ('t, 'e) memory" where
  "Result_from_error same_type moved_from m this error =
     (case forward_error moved_from m error of
        Inl f \<Rightarrow> Inl f
      | Inr (v, m') \<Rightarrow>
          (case in_place_type_Error same_type v of
             None \<Rightarrow> Inl Incorrect_Alternative
           | Some d \<Rightarrow> Inr (m'\<lparr>results := (results m')(this \<mapsto> \<lparr>data = d\<rparr>)\<rparr>)))"

text \<open>
  Assignment from a failure, to the result at the address \<open>this\<close>:
  \<^verbatim>\<open>operator=(Result_Error<E>&& error)
  { data_.emplace<std::decay_t<E>>(std::forward<E>(error.e)); return *this; }\<close>.
  \<^verbatim>\<open>emplace\<close> has the meaning of \<^verbatim>\<open>std::variant::emplace\<close>: it destroys the
  alternative held, then constructs the new one in its place from the arguments. Between
  the two steps the result holds no alternative: \<open>destruct\<close> leaves no object to read at
  its address. The comment above the operator
  (\<^verbatim>\<open>FIXME: The following code is a landmine: r = failed_result(std::move(r.error()));\<close>)
  is about this order.
\<close>

definition destruct :: "('t, 'e) memory \<Rightarrow> address \<Rightarrow> ('t, 'e) memory" where
  "destruct m this = m\<lparr>results := (results m)(this := None)\<rparr>"

definition Result_assign_error ::
  "bool \<Rightarrow> ('e \<Rightarrow> 'e) \<Rightarrow> ('t, 'e) memory \<Rightarrow> address \<Rightarrow> Result_Error \<Rightarrow>
   failure + ('t, 'e) memory" where
  "Result_assign_error same_type moved_from m this error =
     (case results m this of
        None \<Rightarrow> Inl Dangling_Reference
      | Some r \<Rightarrow>
          (case forward_error moved_from (destruct m this) error of
             Inl f \<Rightarrow> Inl f
           | Inr (v, m') \<Rightarrow>
               (case in_place_type_Error same_type v of
                  None \<Rightarrow> Inl Incorrect_Alternative
                | Some d \<Rightarrow> Inr (m'\<lparr>results := (results m')(this \<mapsto> r\<lparr>data := d\<rparr>)\<rparr>))))"

text \<open>\<^verbatim>\<open>bool ok() const { return this->data_.index() == 0; }\<close>\<close>

definition Result_ok :: "('t, 'e) Result_Base \<Rightarrow> bool" where
  "Result_ok r = (variant_index (data r) = 0)"

text \<open>\<^verbatim>\<open>value() { QLJS_ASSERT(this->ok()); return get<0>(this->data_); }\<close>\<close>

definition Result_value :: "('t, 'e) Result_Base \<Rightarrow> failure + 't" where
  "Result_value r = (if Result_ok r then get_0 (data r) else Inl Assertion_Failed)"

text \<open>
  \<^verbatim>\<open>error() { QLJS_ASSERT(!this->ok()); return get<Error>(this->data_); }\<close>: the error
  it returns, read at once (\<open>Result_error\<close>, and \<open>error_at\<close> for the result at an
  address), and the reference it returns, kept for later (\<open>Result_error_reference\<close>).
\<close>

definition Result_error :: "('t, 'e) Result_Base \<Rightarrow> failure + 'e" where
  "Result_error r = (if \<not> Result_ok r then get_Error (data r) else Inl Assertion_Failed)"

definition error_at :: "('t, 'e) memory \<Rightarrow> address \<Rightarrow> failure + 'e" where
  "error_at m this =
     (case results m this of None \<Rightarrow> Inl Dangling_Reference | Some r \<Rightarrow> Result_error r)"

definition Result_error_reference :: "('t, 'e) memory \<Rightarrow> address \<Rightarrow> failure + reference" where
  "Result_error_reference m this =
     (case results m this of
        None \<Rightarrow> Inl Dangling_Reference
      | Some r \<Rightarrow> if \<not> Result_ok r then Inr (Error_Of_Result this) else Inl Assertion_Failed)"

text \<open>
  A memory for the examples: the result at address 0 holds the error \<^verbatim>\<open>"ENOENT"\<close>, and
  an error object of its own at address 1 has the same value.
\<close>

definition landmine :: "(nat, string) memory" where
  "landmine =
     \<lparr>error_objects = [1 \<mapsto> ''ENOENT''],
      results = [0 \<mapsto> \<lparr>data = Alternative_1 ''ENOENT''\<rparr>]\<rparr>"

section \<open>tools/generate-lex-tables.cpp\<close>

text \<open>The fixed list \<^verbatim>\<open>symbols\<close>; a \<^verbatim>\<open>string8_view\<close> is a list of bytes.\<close>

definition symbols :: "string list" where
  "symbols =
    [''!'', ''!='', ''!=='', ''%'', ''%='', ''&'',
     ''&&'', ''&&='', ''&='', ''+'', ''++'', ''+='',
     ''='', ''=='', ''==='', ''=>'', ''>'', ''>='',
     ''>>'', ''>>='', ''>>>'', ''>>>='', ''^'', ''^='',
     ''|'', ''|='', ''||'', ''||='']"

datatype lex_state_kind = intermediate | non_unique_terminal | unique_terminal

record lex_state =
  kind :: lex_state_kind
  history :: string

text \<open>
  \<^verbatim>\<open>struct lex_tables\<close>. A \<^verbatim>\<open>character_class\<close> is its \<^verbatim>\<open>std::uint8_t number\<close>.
  \<^verbatim>\<open>character_classes\<close> is the array \<^verbatim>\<open>byte_to_class[256]\<close>, kept as a function of the
  index: it is read at \<^verbatim>\<open>static_cast<std::uint8_t>(c)\<close> and written at a loop counter
  below 256 only. A \<^verbatim>\<open>single_state_transition_table\<close> is its vector
  \<^verbatim>\<open>transitions\<close>. \<^verbatim>\<open>state_to_token_table\<close> holds generated source text and is not read by
  the functions modelled here; it is left out.
\<close>

record lex_tables =
  character_classes :: "nat \<Rightarrow> nat"
  max_character_class :: nat
  states :: "lex_state list"
  intermediate_or_non_unique_terminal_state_count :: nat
  unique_terminal_state_count :: nat
  transition_table :: "nat list list"

text \<open>The value of \<^verbatim>\<open>lex_tables tables;\<close> in \<^verbatim>\<open>main\<close>: every member default-initialised.\<close>

definition empty_tables :: lex_tables where
  "empty_tables =
     \<lparr>character_classes = (\<lambda>_. 0), max_character_class = 0, states = [],
      intermediate_or_non_unique_terminal_state_count = 0, unique_terminal_state_count = 0,
      transition_table = []\<rparr>"

definition retract :: nat where
  "retract = 0xffffffff"

definition table_broken :: nat where
  "table_broken = 0xfffffffe"

text \<open>
  The body of the loop of \<^verbatim>\<open>classify_characters\<close> for the byte \<open>c\<close>: if some symbol
  contains the byte, \<^verbatim>\<open>++t.max_character_class.number\<close> (an 8-bit increment) and
  \<^verbatim>\<open>t.character_classes[c] = t.max_character_class\<close>.
\<close>

definition classify_character :: "nat \<Rightarrow> lex_tables \<Rightarrow> lex_tables" where
  "classify_character c t =
     (if list_ex (\<lambda>symbol. char_of c \<in> set symbol) symbols
      then let n = (max_character_class t + 1) mod 256
           in t\<lparr>max_character_class := n,
                character_classes := (character_classes t)(c := n)\<rparr>
      else t)"

text \<open>\<^verbatim>\<open>for (std::size_t c = 0; c < t.character_classes.size(); ++c)\<close>, from \<open>c\<close> on.\<close>

function classify_characters_from :: "nat \<Rightarrow> lex_tables \<Rightarrow> lex_tables" where
  "classify_characters_from c t =
     (if c < 256 then classify_characters_from (c + 1) (classify_character c t) else t)"
  by pat_completeness auto
termination
  by (relation "measure (\<lambda>(c, t). 256 - c)") auto

declare classify_characters_from.simps [simp del]

definition classify_characters :: "lex_tables \<Rightarrow> lex_tables" where
  "classify_characters t = classify_characters_from 0 t"

definition starts_with :: "string \<Rightarrow> string \<Rightarrow> bool" where
  "starts_with haystack needle = (take (length needle) haystack = needle)"

definition is_strict_prefix_of_any_symbol :: "string \<Rightarrow> bool" where
  "is_strict_prefix_of_any_symbol s =
     list_ex (\<lambda>symbol. length symbol \<noteq> length s \<and> starts_with symbol s) symbols"

text \<open>A range-based \<^verbatim>\<open>for\<close> loop whose body may stop the run.\<close>

fun for_each :: "'a list \<Rightarrow> ('a \<Rightarrow> 's \<Rightarrow> failure + 's) \<Rightarrow> 's \<Rightarrow> failure + 's" where
  "for_each [] body s = Inr s"
| "for_each (x # xs) body s =
     (case body x s of Inl f \<Rightarrow> Inl f | Inr s' \<Rightarrow> for_each xs body s')"

text \<open>The lambda \<^verbatim>\<open>add_intermediate_state\<close> of \<^verbatim>\<open>compute_states\<close>, on \<^verbatim>\<open>t.states\<close>.\<close>

definition add_intermediate_state :: "string \<Rightarrow> lex_state list \<Rightarrow> failure + lex_state list" where
  "add_intermediate_state h sts =
     (case find (\<lambda>existing_state. history existing_state = h) sts of
        Some existing_state \<Rightarrow>
          if kind existing_state = intermediate \<or> kind existing_state = non_unique_terminal
          then Inr sts else Inl Assertion_Failed
      | None \<Rightarrow> Inr (sts @ [\<lparr>kind = intermediate, history = h\<rparr>]))"

text \<open>\<^verbatim>\<open>a.history < b.history\<close> on \<^verbatim>\<open>string8_view\<close>: lexicographic, byte by byte.\<close>

fun string8_less :: "string \<Rightarrow> string \<Rightarrow> bool" where
  "string8_less [] [] = False"
| "string8_less [] (y # ys) = True"
| "string8_less (x # xs) [] = False"
| "string8_less (x # xs) (y # ys) =
     (if (of_char x :: nat) < of_char y then True
      else if (of_char y :: nat) < of_char x then False
      else string8_less xs ys)"

text \<open>The comparison given to \<^verbatim>\<open>std::sort\<close> in \<^verbatim>\<open>compute_states\<close>.\<close>

definition state_less :: "lex_state \<Rightarrow> lex_state \<Rightarrow> bool" where
  "state_less a b =
     (if kind a \<noteq> kind b then kind a \<noteq> unique_terminal
      else string8_less (history a) (history b))"

text \<open>
  \<^verbatim>\<open>std::sort\<close>, as an insertion sort. On the states of the fixed symbol list the
  comparison is a strict total order (the sorted range holds no intermediate state, and
  no two states share a history), so every sorting algorithm returns the same list.
\<close>

fun insert_sorted :: "('a \<Rightarrow> 'a \<Rightarrow> bool) \<Rightarrow> 'a \<Rightarrow> 'a list \<Rightarrow> 'a list" where
  "insert_sorted lt x [] = [x]"
| "insert_sorted lt x (y # ys) = (if lt x y then x # y # ys else y # insert_sorted lt x ys)"

definition std_sort :: "('a \<Rightarrow> 'a \<Rightarrow> bool) \<Rightarrow> 'a list \<Rightarrow> 'a list" where
  "std_sort lt xs = foldr (insert_sorted lt) xs []"

text \<open>
  \<^verbatim>\<open>compute_states\<close>: the initial state, one terminal state per symbol, the
  intermediate states \<^verbatim>\<open>symbol.substr(0, i)\<close> for \<^verbatim>\<open>1 <= i < symbol.size() - 1\<close> (no
  symbol of the list is empty, so the unsigned subtraction does not wrap), the sort of
  all states but the first, and the two counts.
\<close>

definition compute_states :: "lex_tables \<Rightarrow> failure + lex_tables" where
  "compute_states t =
     (let initial = states t @ [\<lparr>kind = intermediate, history = []\<rparr>];
          terminals = initial @
            map (\<lambda>symbol. \<lparr>kind = (if is_strict_prefix_of_any_symbol symbol
                                     then non_unique_terminal else unique_terminal),
                            history = symbol\<rparr>) symbols
      in case for_each symbols
                (\<lambda>symbol. for_each [1..<length symbol - 1]
                   (\<lambda>i. add_intermediate_state (take i symbol)))
                terminals of
           Inl f \<Rightarrow> Inl f
         | Inr all_states \<Rightarrow>
             let sorted = take 1 all_states @ std_sort state_less (drop 1 all_states);
                 unique_count = length (filter (\<lambda>state. kind state = unique_terminal) sorted)
             in Inr (t\<lparr>states := sorted,
                       unique_terminal_state_count := unique_count,
                       intermediate_or_non_unique_terminal_state_count :=
                         length sorted - unique_count\<rparr>))"

text \<open>
  \<^verbatim>\<open>find_state_index\<close>: the position \<^verbatim>\<open>std::find_if\<close> returns, or
  \<^verbatim>\<open>QLJS_ASSERT(false)\<close>.
\<close>

fun find_if_index :: "('a \<Rightarrow> bool) \<Rightarrow> 'a list \<Rightarrow> nat option" where
  "find_if_index p [] = None"
| "find_if_index p (x # xs) = (if p x then Some 0 else map_option Suc (find_if_index p xs))"

definition find_state_index :: "lex_tables \<Rightarrow> string \<Rightarrow> failure + nat" where
  "find_state_index t h =
     (case find_if_index (\<lambda>state. history state = h) (states t) of
        Some i \<Rightarrow> Inr i
      | None \<Rightarrow> Inl Assertion_Failed)"

text \<open>Checked element access.\<close>

definition at :: "'a list \<Rightarrow> nat \<Rightarrow> failure + 'a" where
  "at xs i = (if i < length xs then Inr (xs ! i) else Inl Out_Of_Range)"

text \<open>
  The body of the inner loop of \<^verbatim>\<open>compute_transition_table\<close> for the byte \<open>i\<close> of
  \<open>symbol\<close>, on the tables and \<^verbatim>\<open>current_state_index\<close>. The assertion
  \<^verbatim>\<open>QLJS_ASSERT(*new_state_index_pointer == new_state_index)\<close> is checked when the cell
  does not hold \<^verbatim>\<open>retract\<close>.
\<close>

definition transition_step ::
  "string \<Rightarrow> nat \<Rightarrow> lex_tables \<times> nat \<Rightarrow> failure + lex_tables \<times> nat" where
  "transition_step symbol i s =
     (case s of (t, current_state_index) \<Rightarrow>
      case find_state_index t (take (i + 1) symbol) of
        Inl f \<Rightarrow> Inl f
      | Inr new_state_index \<Rightarrow>
          let c_class = character_classes t (of_char (symbol ! i)) in
          case at (transition_table t) current_state_index of
            Inl f \<Rightarrow> Inl f
          | Inr tt \<Rightarrow>
              (case at tt c_class of
                 Inl f \<Rightarrow> Inl f
               | Inr old \<Rightarrow>
                   if old \<noteq> retract \<and> old \<noteq> new_state_index then Inl Assertion_Failed
                   else Inr (t\<lparr>transition_table :=
                                  (transition_table t)[current_state_index :=
                                     tt[c_class := new_state_index]]\<rparr>,
                             new_state_index)))"

text \<open>
  \<^verbatim>\<open>compute_transition_table\<close>: one row per intermediate or non-unique terminal
  state, every cell \<^verbatim>\<open>retract\<close>; the cell of the initial state and class 0 set to
  \<^verbatim>\<open>table_broken\<close>; then, for every symbol, the walk from the initial state.
\<close>

definition compute_transition_table :: "lex_tables \<Rightarrow> failure + lex_tables" where
  "compute_transition_table t =
     (let table = replicate (intermediate_or_non_unique_terminal_state_count t)
                    (replicate (max_character_class t + 1) retract)
      in case at table 0 of
           Inl f \<Rightarrow> Inl f
         | Inr tt0 \<Rightarrow>
             for_each symbols
               (\<lambda>symbol t'. map_sum id fst
                  (for_each [0..<length symbol] (transition_step symbol) (t', 0)))
               (t\<lparr>transition_table := table[0 := tt0[0 := table_broken]]\<rparr>))"

text \<open>The three steps of \<^verbatim>\<open>main\<close> that build the tables.\<close>

definition generate_lex_tables :: "failure + lex_tables" where
  "generate_lex_tables =
     (case compute_states (classify_characters empty_tables) of
        Inl f \<Rightarrow> Inl f
      | Inr t \<Rightarrow> compute_transition_table t)"

text \<open>The values the proofs below arrive at.\<close>

definition symbol_classes :: "nat \<Rightarrow> nat" where
  "symbol_classes =
     (\<lambda>_. 0)(33 := 1, 37 := 2, 38 := 3, 43 := 4, 61 := 5, 62 := 6, 94 := 7, 124 := 8)"

definition generated_states :: "lex_state list" where
  "generated_states =
     \<lparr>kind = intermediate, history = []\<rparr> #
     map (\<lambda>h. \<lparr>kind = non_unique_terminal, history = h\<rparr>)
       [''!'', ''!='', ''%'', ''&'', ''&&'', ''+'', ''='', ''=='', ''>'', ''>>'', ''>>>'',
        ''^'', ''|'', ''||''] @
     map (\<lambda>h. \<lparr>kind = unique_terminal, history = h\<rparr>)
       [''!=='', ''%='', ''&&='', ''&='', ''++'', ''+='', ''==='', ''=>'', ''>='', ''>>='',
        ''>>>='', ''^='', ''|='', ''||='']"

definition generated_transition_table :: "nat list list" where
  "generated_transition_table =
     [[table_broken, 1, 3, 4, 6, 7, 9, 12, 13],
      [retract, retract, retract, retract, retract, 2, retract, retract, retract],
      [retract, retract, retract, retract, retract, 15, retract, retract, retract],
      [retract, retract, retract, retract, retract, 16, retract, retract, retract],
      [retract, retract, retract, 5, retract, 18, retract, retract, retract],
      [retract, retract, retract, retract, retract, 17, retract, retract, retract],
      [retract, retract, retract, retract, 19, 20, retract, retract, retract],
      [retract, retract, retract, retract, retract, 8, 22, retract, retract],
      [retract, retract, retract, retract, retract, 21, retract, retract, retract],
      [retract, retract, retract, retract, retract, 23, 10, retract, retract],
      [retract, retract, retract, retract, retract, 24, 11, retract, retract],
      [retract, retract, retract, retract, retract, 25, retract, retract, retract],
      [retract, retract, retract, retract, retract, 26, retract, retract, retract],
      [retract, retract, retract, retract, retract, 27, retract, retract, 14],
      [retract, retract, retract, retract, retract, 28, retract, retract, retract]]"

section \<open>The configuration loader\<close>

text \<open>
  \<^verbatim>\<open>test/test-configuration-loader.cpp\<close> drives \<^verbatim>\<open>Configuration_Loader\<close>, whose
  implementation (\<^verbatim>\<open>configuration/configuration-loader.cpp\<close>), filesystems and path
  canonicalizer are not among the sources. What follows is modelled from the
  specification, section by section. Paths are lists of components. The platform watcher
  takes no part: \<open>refresh\<close> is pulled by the client and reads the filesystem at the time
  of the call.
\<close>

text \<open>
  Modelled from the spec: the paths handled by the absent loader. An input path and a
  \<open>CanonicalPath\<close> (section 3: ``an absolute, symlink-resolved path string with value
  equality'') are lists of path components.
\<close>

type_synonym file_path = "string list"

type_synonym canonical_path = "string list"

text \<open>
  Modelled from the spec: \<open>IOError\<close> of the absent loader (section 3:
  ``\<open>{ path, canonicalizing_path (optional), io_error: {errno-or-GetLastError code} }\<close>.
  Value type.'').
\<close>

record io_error =
  error_path :: file_path
  canonicalizing_path :: "canonical_path option"
  io_error :: nat

text \<open>
  Modelled from the spec: \<open>CanonicalizeResult\<close> of the absent canonicalizer (section 3:
  ``\<open>{ canonical: CanonicalPath, existed_prefix_length }\<close>'').
\<close>

record canonicalize_result =
  canonical :: canonical_path
  existed_prefix_length :: nat

text \<open>
  Modelled from the spec: what \<open>stat\<close> of the absent filesystem reports for a candidate
  (section 4.5, step 3: a regular file, a non-regular file, or nothing there).
\<close>

datatype stat_result = Regular_File | Non_Regular_File | Does_Not_Exist

text \<open>
  Modelled from the spec: the Filesystem Abstraction, absent from the sources (section
  4.2: ``\<open>read_file(CanonicalPath) -> bytes | IOError\<close>'',
  ``\<open>canonicalize(path) -> CanonicalizeResult | IOError\<close>''; section 4.5 adds \<open>stat\<close>). A
  filesystem state is the three operations as functions, so a statement about every
  \<open>filesystem\<close> is about every state and every implementation, the real one and the
  fake one.
\<close>

record filesystem =
  canonicalize :: "file_path \<Rightarrow> io_error + canonicalize_result"
  stat :: "canonical_path \<Rightarrow> io_error + stat_result"
  read_file :: "canonical_path \<Rightarrow> io_error + string"

text \<open>
  Modelled from the spec: the platforms and the error codes the absent resolver cites
  (section 4.5: ``EISDIR (Unix) or ERROR_ACCESS_DENIED (Windows)''), with their numeric
  values on Linux and Windows.
\<close>

datatype platform = Unix | Windows

definition EISDIR :: nat where
  "EISDIR = 21"

definition ERROR_ACCESS_DENIED :: nat where
  "ERROR_ACCESS_DENIED = 5"

definition ENOENT :: nat where
  "ENOENT = 2"

text \<open>
  Modelled from the spec: the external collaborators of the absent loader (section 1:
  parsing is ``an abstract \<open>parse_config(bytes) -> Configuration\<close> operation''; section
  4.4: on a syntax error ``the cache retains a default configuration''; section 3: the
  entry keeps a hash of the bytes). They are parameters: the platform, the parser with
  the default configuration, and the hash function.
\<close>

record 'cfg collaborators =
  platform :: platform
  parse_config :: "string \<Rightarrow> 'cfg option"
  default_config :: 'cfg
  bytes_hash :: "string \<Rightarrow> nat"

text \<open>
  Modelled from the spec: \<open>LoadedConfigEntry\<close> of the absent cache (section 3:
  ``\<open>{ canonical_path, config, last_bytes_hash, last_mtime_tag (optional), error
  (optional) }\<close>''). The optional modification time is left out; \<open>degraded\<close> is the
  entry's parse error (section 4.4: ``marks the entry as degraded'').
\<close>

record 'cfg loaded_config_entry =
  canonical_path :: canonical_path
  config :: 'cfg
  last_bytes_hash :: nat
  degraded :: bool

text \<open>
  Modelled from the spec: \<open>Watch\<close> of the absent loader (section 3:
  ``\<open>{ kind: FileWatch | DirectConfigWatch, input_path, token: opaque, last_resolution:
  LoadedConfigEntry? | nullptr, last_error: IOError? }\<close>''). The reference to a cache entry
  is the entry's key, its canonical path (section 4.4: ``Lookup is by canonical path
  identity'').
\<close>

datatype watch_kind = FileWatch | DirectConfigWatch

record 'tok watch =
  watch_kind :: watch_kind
  input_path :: file_path
  token :: 'tok
  last_resolution :: "canonical_path option"
  last_error :: "io_error option"

text \<open>
  Modelled from the spec: \<open>ConfigurationChange\<close> of the absent loader (section 3:
  ``\<open>{ watched_path, token, config_file: LoadedConfigEntry?, error: IOError? }\<close>'').
\<close>

record 'tok configuration_change =
  watched_path :: file_path
  change_token :: 'tok
  config_file :: "canonical_path option"
  error :: "io_error option"

text \<open>
  Modelled from the spec: \<open>FileToLint\<close>, declared in the absent \<^verbatim>\<open>cli/options.h\<close>
  (section 6: ``\<open>{ path: string, config_file: string? (explicit override),
  path_for_config_search: string? (defaults to path), is_stdin: bool }\<close>'').
\<close>

record file_to_lint =
  path :: file_path
  explicit_config_file :: "file_path option"
  path_for_config_search :: "file_path option"
  is_stdin :: bool

text \<open>
  Modelled from the spec: the state of the absent \<^verbatim>\<open>Configuration_Loader\<close> (section 2:
  the Config Cache, ``Map canonical config path \<open>\<rightarrow>\<close> parsed Configuration (at most one live
  parse per path)'', and the watch registrations).
\<close>

record ('cfg, 'tok) loader =
  cache :: "canonical_path \<rightharpoonup> 'cfg loaded_config_entry"
  watches :: "'tok watch list"

text \<open>Modelled from the spec: the absent loader as constructed, with no entry and no watch.\<close>

definition new_loader :: "('cfg, 'tok) loader" where
  "new_loader = \<lparr>cache = Map.empty, watches = []\<rparr>"

subsection \<open>Resolver\<close>

text \<open>
  Modelled from the spec: the well-known file name the absent resolver looks for (section
  6: ``\<open>quick-lint-js.config\<close>'').
\<close>

definition config_file_name :: string where
  "config_file_name = ''quick-lint-js.config''"

text \<open>
  Modelled from the spec: the code of the absent resolver's error for a candidate that is
  not a regular file (section 4.5, step 3).
\<close>

definition not_regular_file_code :: "platform \<Rightarrow> nat" where
  "not_regular_file_code pf = (case pf of Unix \<Rightarrow> EISDIR | Windows \<Rightarrow> ERROR_ACCESS_DENIED)"

text \<open>
  Modelled from the spec: the directories of the absent resolver's walk (section 4.5,
  step 2: ``each directory from the starting file's parent, walking toward the root''):
  the directory itself, then each parent, the root last.
\<close>

definition ancestor_directories :: "canonical_path \<Rightarrow> canonical_path list" where
  "ancestor_directories dir = map (\<lambda>n. take n dir) (rev [0..<length dir + 1])"

text \<open>
  Modelled from the spec: the walk of the absent resolver over these directories (section
  4.5, steps 2 and 3: ``emit the candidate \<open><dir>/quick-lint-js.config\<close>. For the first
  candidate that \<open>stat\<close>s as a regular file, stop and return that canonical path. If
  \<open>stat\<close> reports a non-regular file [...], return a resolution error''). Any other
  failure of \<open>stat\<close> is returned as it is (section 7).
\<close>

fun search_candidates ::
  "platform \<Rightarrow> filesystem \<Rightarrow> canonical_path list \<Rightarrow> io_error + canonical_path option" where
  "search_candidates pf fs [] = Inr None"
| "search_candidates pf fs (dir # dirs) =
     (let candidate = dir @ [config_file_name]
      in case stat fs candidate of
           Inl e \<Rightarrow> Inl e
         | Inr Regular_File \<Rightarrow> Inr (Some candidate)
         | Inr Non_Regular_File \<Rightarrow>
             Inl \<lparr>error_path = candidate, canonicalizing_path = None,
                  io_error = not_regular_file_code pf\<rparr>
         | Inr Does_Not_Exist \<Rightarrow> search_candidates pf fs dirs)"

text \<open>
  Modelled from the spec: the absent resolver (section 4.5, step 1: ``Canonicalize the
  starting path''; steps 2 and 3 for a file; step 6 for an explicit config file: ``the
  Resolver canonicalizes it and returns it directly'').
\<close>

definition resolve_path ::
  "platform \<Rightarrow> filesystem \<Rightarrow> watch_kind \<Rightarrow> file_path \<Rightarrow> io_error + canonical_path option" where
  "resolve_path pf fs k p =
     (case canonicalize fs p of
        Inl e \<Rightarrow> Inl e
      | Inr r \<Rightarrow>
          (case k of
             DirectConfigWatch \<Rightarrow> Inr (Some (canonical r))
           | FileWatch \<Rightarrow>
               search_candidates pf fs (ancestor_directories (butlast (canonical r)))))"

subsection \<open>Config cache\<close>

text \<open>
  Modelled from the spec: the entry the absent cache builds from the bytes of a file
  (section 4.4: ``read file, parse, insert''; a syntax error gives the default
  configuration and a degraded entry).
\<close>

definition make_entry ::
  "'cfg collaborators \<Rightarrow> canonical_path \<Rightarrow> string \<Rightarrow> 'cfg loaded_config_entry" where
  "make_entry ext p bytes =
     \<lparr>canonical_path = p,
      config = (case parse_config ext bytes of Some c \<Rightarrow> c | None \<Rightarrow> default_config ext),
      last_bytes_hash = bytes_hash ext bytes,
      degraded = (parse_config ext bytes = None)\<rparr>"

text \<open>
  Modelled from the spec: \<open>get_or_load\<close> of the absent cache (section 4.4: ``Lookup is
  by canonical path identity. On miss: read file, parse, insert. On hit: return existing
  entry.''). It returns the reference to the entry, or the error of the read.
\<close>

definition get_or_load ::
  "'cfg collaborators \<Rightarrow> filesystem \<Rightarrow> (canonical_path \<rightharpoonup> 'cfg loaded_config_entry) \<Rightarrow>
   canonical_path \<Rightarrow>
   (io_error + canonical_path) \<times> (canonical_path \<rightharpoonup> 'cfg loaded_config_entry)" where
  "get_or_load ext fs c p =
     (case c p of
        Some entry \<Rightarrow> (Inr p, c)
      | None \<Rightarrow>
          (case read_file fs p of
             Inl e \<Rightarrow> (Inl e, c)
           | Inr bytes \<Rightarrow> (Inr p, c(p \<mapsto> make_entry ext p bytes))))"

subsection \<open>Loader\<close>

text \<open>
  Modelled from the spec: the second half of a load in the absent loader (section 2:
  ``the found config (if any) is fetched/parsed via the Config Cache; a \<open>LoadedConfig\<close>
  handle is returned''). The result is the reference to the entry, \<open>None\<close> when no config
  applies, or an error.
\<close>

definition load_resolved ::
  "'cfg collaborators \<Rightarrow> filesystem \<Rightarrow> ('cfg, 'tok) loader \<Rightarrow>
   io_error + canonical_path option \<Rightarrow>
   (io_error + canonical_path option) \<times> ('cfg, 'tok) loader" where
  "load_resolved ext fs l r =
     (case r of
        Inl e \<Rightarrow> (Inl e, l)
      | Inr None \<Rightarrow> (Inr None, l)
      | Inr (Some p) \<Rightarrow>
          (case get_or_load ext fs (cache l) p of
             (Inl e, c) \<Rightarrow> (Inl e, l\<lparr>cache := c\<rparr>)
           | (Inr q, c) \<Rightarrow> (Inr (Some q), l\<lparr>cache := c\<rparr>)))"

text \<open>
  Modelled from the spec: \<open>load_for_file\<close> of the absent loader (section 4.6:
  ``one-shot resolution, no watching''; section 6: ``stdin with no search path \<open>\<Rightarrow>\<close> no
  config; explicit \<open>config_file\<close> \<open>\<Rightarrow>\<close> direct mode; otherwise ancestor search from
  \<open>path_for_config_search\<close> or \<open>path\<close>'').
\<close>

definition load_for_file ::
  "'cfg collaborators \<Rightarrow> filesystem \<Rightarrow> ('cfg, 'tok) loader \<Rightarrow> file_to_lint \<Rightarrow>
   (io_error + canonical_path option) \<times> ('cfg, 'tok) loader" where
  "load_for_file ext fs l f =
     (case explicit_config_file f of
        Some cf \<Rightarrow> load_resolved ext fs l (resolve_path (platform ext) fs DirectConfigWatch cf)
      | None \<Rightarrow>
          (case path_for_config_search f of
             Some p \<Rightarrow> load_resolved ext fs l (resolve_path (platform ext) fs FileWatch p)
           | None \<Rightarrow>
               if is_stdin f then (Inr None, l)
               else load_resolved ext fs l (resolve_path (platform ext) fs FileWatch (path f))))"

text \<open>
  Modelled from the spec: the states of a watch's resolution in the absent loader
  (section 4.7: ``\<open>resolved_ok(entry)\<close>, \<open>resolved_none\<close>, \<open>resolved_error(ioerror)\<close>'';
  \<open>unresolved\<close> is never held, since the ``initial load places the Watch directly into
  its result state'').
\<close>

datatype watch_state = resolved_ok canonical_path | resolved_none | resolved_error io_error

text \<open>
  Modelled from the spec: the state a watch of the absent loader remembers, read from its
  fields \<open>last_resolution\<close> and \<open>last_error\<close> (section 3).
\<close>

definition state_of :: "'tok watch \<Rightarrow> watch_state" where
  "state_of w =
     (case last_error w of
        Some e \<Rightarrow> resolved_error e
      | None \<Rightarrow> (case last_resolution w of Some p \<Rightarrow> resolved_ok p | None \<Rightarrow> resolved_none))"

text \<open>
  Modelled from the spec: how the absent loader writes a state into the two fields of a
  watch (section 3: ``\<open>last_resolution\<close> reflects the most recent completed \<open>refresh\<close> (or
  the initial load)'').
\<close>

fun set_state :: "'tok watch \<Rightarrow> watch_state \<Rightarrow> 'tok watch" where
  "set_state w (resolved_ok p) = w\<lparr>last_resolution := Some p, last_error := None\<rparr>"
| "set_state w resolved_none = w\<lparr>last_resolution := None, last_error := None\<rparr>"
| "set_state w (resolved_error e) = w\<lparr>last_resolution := None, last_error := Some e\<rparr>"

text \<open>
  Modelled from the spec: the state the result of an initial load of the absent loader
  stands for (section 4.7).
\<close>

fun state_of_result :: "io_error + canonical_path option \<Rightarrow> watch_state" where
  "state_of_result (Inl e) = resolved_error e"
| "state_of_result (Inr None) = resolved_none"
| "state_of_result (Inr (Some p)) = resolved_ok p"

text \<open>
  Modelled from the spec: the common part of \<open>watch_and_load_for_file\<close> and
  \<open>watch_and_load_config_file\<close> of the absent loader (section 4.6: ``resolution +
  registration; remembers the resolution in the Watch'').
\<close>

definition watch_and_load ::
  "'cfg collaborators \<Rightarrow> filesystem \<Rightarrow> ('cfg, 'tok) loader \<Rightarrow> watch_kind \<Rightarrow> file_path \<Rightarrow>
   'tok \<Rightarrow> (io_error + canonical_path option) \<times> ('cfg, 'tok) loader" where
  "watch_and_load ext fs l k p tok =
     (case load_resolved ext fs l (resolve_path (platform ext) fs k p) of
        (result, l') \<Rightarrow>
          (result,
           l'\<lparr>watches := watches l' @
                 [set_state \<lparr>watch_kind = k, input_path = p, token = tok,
                             last_resolution = None, last_error = None\<rparr>
                    (state_of_result result)]\<rparr>))"

text \<open>
  Modelled from the spec: \<open>watch_and_load_for_file(path, token)\<close> of the absent loader
  (section 4.6).
\<close>

definition watch_and_load_for_file ::
  "'cfg collaborators \<Rightarrow> filesystem \<Rightarrow> ('cfg, 'tok) loader \<Rightarrow> file_path \<Rightarrow> 'tok \<Rightarrow>
   (io_error + canonical_path option) \<times> ('cfg, 'tok) loader" where
  "watch_and_load_for_file ext fs l p tok = watch_and_load ext fs l FileWatch p tok"

text \<open>
  Modelled from the spec: \<open>watch_and_load_config_file(explicit_config_path, token)\<close> of
  the absent loader (section 4.6: ``direct-config mode'').
\<close>

definition watch_and_load_config_file ::
  "'cfg collaborators \<Rightarrow> filesystem \<Rightarrow> ('cfg, 'tok) loader \<Rightarrow> file_path \<Rightarrow> 'tok \<Rightarrow>
   (io_error + canonical_path option) \<times> ('cfg, 'tok) loader" where
  "watch_and_load_config_file ext fs l p tok = watch_and_load ext fs l DirectConfigWatch p tok"

text \<open>
  Modelled from the spec: \<open>unwatch_file(path)\<close> of the absent loader (section 4.6: ``drop
  the Watch matching \<open>path\<close>'').
\<close>

definition unwatch_file :: "('cfg, 'tok) loader \<Rightarrow> file_path \<Rightarrow> ('cfg, 'tok) loader" where
  "unwatch_file l p = l\<lparr>watches := filter (\<lambda>w. input_path w \<noteq> p) (watches l)\<rparr>"

text \<open>
  Modelled from the spec: \<open>unwatch_all_files()\<close> of the absent loader (section 4.6: ``drop
  all Watches'').
\<close>

definition unwatch_all_files :: "('cfg, 'tok) loader \<Rightarrow> ('cfg, 'tok) loader" where
  "unwatch_all_files l = l\<lparr>watches := []\<rparr>"

subsection \<open>Refresh\<close>

text \<open>
  Modelled from the spec: what re-resolving a watch during \<open>refresh\<close> of the absent
  loader arrives at: a config file with the bytes read from it, no config, or an error.
\<close>

datatype resolution = Found canonical_path string | No_Config | Failed io_error

text \<open>
  Modelled from the spec: the re-resolution of a watch in \<open>refresh\<close> of the absent loader
  (section 4.6: ``for each registered Watch, re-resolve from its input''; section 4.4:
  ``\<open>refresh_entry(path)\<close> re-reads''). A config file that cannot be read is an error
  (section 8, scenario 6).
\<close>

definition resolve :: "platform \<Rightarrow> filesystem \<Rightarrow> 'tok watch \<Rightarrow> resolution" where
  "resolve pf fs w =
     (case resolve_path pf fs (watch_kind w) (input_path w) of
        Inl e \<Rightarrow> Failed e
      | Inr None \<Rightarrow> No_Config
      | Inr (Some p) \<Rightarrow>
          (case read_file fs p of Inl e \<Rightarrow> Failed e | Inr bytes \<Rightarrow> Found p bytes))"

text \<open>
  Modelled from the spec: the state a watch of the absent loader is in after a
  re-resolution (section 4.7).
\<close>

fun state_after :: "resolution \<Rightarrow> watch_state" where
  "state_after (Found p bytes) = resolved_ok p"
| "state_after No_Config = resolved_none"
| "state_after (Failed e) = resolved_error e"

text \<open>
  Modelled from the spec: the content comparison of \<open>refresh\<close> in the absent loader
  (section 4.6: ``the cache entry's content hash changed''): the hash the entry holds
  against the hash of the bytes just read. A path with no entry counts as changed.
\<close>

definition bytes_changed ::
  "'cfg collaborators \<Rightarrow> (canonical_path \<rightharpoonup> 'cfg loaded_config_entry) \<Rightarrow> canonical_path \<Rightarrow>
   string \<Rightarrow> bool" where
  "bytes_changed ext c p bytes =
     (case c p of None \<Rightarrow> True | Some entry \<Rightarrow> last_bytes_hash entry \<noteq> bytes_hash ext bytes)"

text \<open>
  Modelled from the spec: the table of section 4.7, ``Emits change?'', for \<open>refresh\<close> of
  the absent loader, row by row, from the remembered state to the new resolution. The
  table has no row from \<open>resolved_none\<close> to \<open>resolved_none\<close> or to an error; they are
  filled in as no change and as a change.
\<close>

fun emits_change ::
  "'cfg collaborators \<Rightarrow> (canonical_path \<rightharpoonup> 'cfg loaded_config_entry) \<Rightarrow> watch_state \<Rightarrow>
   resolution \<Rightarrow> bool" where
  "emits_change ext c (resolved_ok a) (Found b bytes) =
     (if a = b then bytes_changed ext c a bytes else True)"
| "emits_change ext c (resolved_ok a) No_Config = True"
| "emits_change ext c (resolved_ok a) (Failed e) = True"
| "emits_change ext c resolved_none (Found b bytes) = True"
| "emits_change ext c resolved_none No_Config = False"
| "emits_change ext c resolved_none (Failed e) = True"
| "emits_change ext c (resolved_error e1) (Failed e2) = (e1 \<noteq> e2)"
| "emits_change ext c (resolved_error e1) (Found b bytes) = True"
| "emits_change ext c (resolved_error e1) No_Config = True"

text \<open>
  Modelled from the spec: the columns \<open>config_file\<close> and \<open>error\<close> of the table of section
  4.7 for a change record of the absent loader (section 3: ``\<open>config_file\<close> is null iff no
  config now applies; \<open>error\<close> is non-null iff resolution failed'').
\<close>

fun config_file_of :: "resolution \<Rightarrow> canonical_path option" where
  "config_file_of (Found p bytes) = Some p"
| "config_file_of No_Config = None"
| "config_file_of (Failed e) = None"

fun error_of :: "resolution \<Rightarrow> io_error option" where
  "error_of (Found p bytes) = None"
| "error_of No_Config = None"
| "error_of (Failed e) = Some e"

text \<open>
  Modelled from the spec: the change record of the absent loader for a watch (section 3:
  the token is ``echoed back in change records'').
\<close>

definition change_for :: "'tok watch \<Rightarrow> resolution \<Rightarrow> 'tok configuration_change" where
  "change_for w r =
     \<lparr>watched_path = input_path w, change_token = token w,
      config_file = config_file_of r, error = error_of r\<rparr>"

text \<open>
  Modelled from the spec: \<open>refresh_entry\<close> of the absent cache (section 4.4: ``re-reads
  and reparses in place''), for the file a re-resolution found.
\<close>

fun refresh_entry ::
  "'cfg collaborators \<Rightarrow> resolution \<Rightarrow> (canonical_path \<rightharpoonup> 'cfg loaded_config_entry) \<Rightarrow>
   (canonical_path \<rightharpoonup> 'cfg loaded_config_entry)" where
  "refresh_entry ext (Found p bytes) c = c(p \<mapsto> make_entry ext p bytes)"
| "refresh_entry ext No_Config c = c"
| "refresh_entry ext (Failed e) c = c"

text \<open>
  Modelled from the spec: \<open>refresh()\<close> of the absent loader (section 4.6: ``for each
  registered Watch, re-resolve from its input; compare result to the Watch's remembered
  state; emit a \<open>ConfigurationChange\<close> iff [...]''). Every watch is compared with the
  cache as it was when \<open>refresh\<close> began (``Multiple Watches whose resolutions all point to
  a newly-modified config each produce their own change record''); then the entries are
  refreshed and every watch remembers its new resolution.
\<close>

definition refresh ::
  "'cfg collaborators \<Rightarrow> filesystem \<Rightarrow> ('cfg, 'tok) loader \<Rightarrow>
   'tok configuration_change list \<times> ('cfg, 'tok) loader" where
  "refresh ext fs l =
     (let new = resolve (platform ext) fs
      in (map (\<lambda>w. change_for w (new w))
            (filter (\<lambda>w. emits_change ext (cache l) (state_of w) (new w)) (watches l)),
          \<lparr>cache = fold (\<lambda>w. refresh_entry ext (new w)) (watches l) (cache l),
           watches = map (\<lambda>w. set_state w (state_after (new w))) (watches l)\<rparr>))"

text \<open>
  Modelled from the spec: the rule of section 4.6 for \<open>refresh\<close> of the absent loader, in
  its own words: a change is due iff ``(a) the resolved canonical config path differs, OR
  (b) the resolved path is the same but the cache entry's content hash changed, OR (c) the
  error status changed''.
\<close>

definition config_path_of_state :: "watch_state \<Rightarrow> canonical_path option" where
  "config_path_of_state s = (case s of resolved_ok p \<Rightarrow> Some p | _ \<Rightarrow> None)"

definition error_of_state :: "watch_state \<Rightarrow> io_error option" where
  "error_of_state s = (case s of resolved_error e \<Rightarrow> Some e | _ \<Rightarrow> None)"

definition resolution_differs ::
  "'cfg collaborators \<Rightarrow> filesystem \<Rightarrow> ('cfg, 'tok) loader \<Rightarrow> 'tok watch \<Rightarrow> bool" where
  "resolution_differs ext fs l w =
     (let new = resolve (platform ext) fs w; old = state_of w
      in config_file_of new \<noteq> config_path_of_state old
         \<or> (case new of
               Found p bytes \<Rightarrow> old = resolved_ok p \<and> bytes_changed ext (cache l) p bytes
             | _ \<Rightarrow> False)
         \<or> error_of new \<noteq> error_of_state old)"

text \<open>
  Modelled from the spec: the public operations of the absent loader (section 4.6), as
  values, and a client that calls them one after the other on a filesystem that does not
  change in between.
\<close>

datatype 'tok operation =
    Load_For_File file_to_lint
  | Watch_And_Load_For_File file_path 'tok
  | Watch_And_Load_Config_File file_path 'tok
  | Unwatch_File file_path
  | Unwatch_All_Files
  | Refresh

fun perform ::
  "'cfg collaborators \<Rightarrow> filesystem \<Rightarrow> ('cfg, 'tok) loader \<Rightarrow> 'tok operation \<Rightarrow>
   ('cfg, 'tok) loader" where
  "perform ext fs l (Load_For_File f) = snd (load_for_file ext fs l f)"
| "perform ext fs l (Watch_And_Load_For_File p tok) =
     snd (watch_and_load_for_file ext fs l p tok)"
| "perform ext fs l (Watch_And_Load_Config_File p tok) =
     snd (watch_and_load_config_file ext fs l p tok)"
| "perform ext fs l (Unwatch_File p) = unwatch_file l p"
| "perform ext fs l Unwatch_All_Files = unwatch_all_files l"
| "perform ext fs l Refresh = snd (refresh ext fs l)"

definition perform_all ::
  "'cfg collaborators \<Rightarrow> filesystem \<Rightarrow> 'tok operation list \<Rightarrow> ('cfg, 'tok) loader \<Rightarrow>
   ('cfg, 'tok) loader" where
  "perform_all ext fs ops l = foldl (perform ext fs) l ops"

subsection \<open>A fake filesystem and a project on it\<close>

text \<open>
  Modelled from the spec: the Fake Filesystem, \<^verbatim>\<open>fake-configuration-filesystem.h\<close> being
  absent (section 4.2: it ``stores an in-memory directory tree keyed by logical path,
  supports \<open>create_file\<close>''). A logical path is canonical as it is; a path is a directory
  when a file lies below it.
\<close>

definition fake_exists :: "(canonical_path \<times> string) list \<Rightarrow> canonical_path \<Rightarrow> bool" where
  "fake_exists files p = list_ex (\<lambda>(f, bytes). take (length p) f = p) files"

definition fake_filesystem :: "(canonical_path \<times> string) list \<Rightarrow> filesystem" where
  "fake_filesystem files =
     \<lparr>canonicalize = (\<lambda>p. Inr \<lparr>canonical = p,
          existed_prefix_length =
            length (takeWhile (\<lambda>n. fake_exists files (take n p)) [1..<length p + 1])\<rparr>),
      stat = (\<lambda>p. Inr (case map_of files p of
                          Some bytes \<Rightarrow> Regular_File
                        | None \<Rightarrow> if fake_exists files p then Non_Regular_File
                                   else Does_Not_Exist)),
      read_file = (\<lambda>p. case map_of files p of
                          Some bytes \<Rightarrow> Inr bytes
                        | None \<Rightarrow>
                            Inl \<lparr>error_path = p, canonicalizing_path = None,
                                 io_error = (if fake_exists files p then EISDIR else ENOENT)\<rparr>)\<rparr>"

definition create_file ::
  "canonical_path \<Rightarrow> string \<Rightarrow> (canonical_path \<times> string) list \<Rightarrow>
   (canonical_path \<times> string) list" where
  "create_file p bytes files = (p, bytes) # filter (\<lambda>(f, b). f \<noteq> p) files"

text \<open>
  Collaborators for the examples: a parser that accepts text in braces, and a polynomial
  hash of the bytes.
\<close>

definition test_collaborators :: "string collaborators" where
  "test_collaborators =
     \<lparr>platform = Unix,
      parse_config =
        (\<lambda>bytes. if bytes \<noteq> [] \<and> hd bytes = CHR ''{'' \<and> last bytes = CHR ''}''
                  then Some bytes else None),
      default_config = ''{}'',
      bytes_hash = (\<lambda>bytes. fold (\<lambda>c h. (h * 31 + of_char c) mod 4294967296) bytes 7)\<rparr>"

text \<open>
  The project of the tests \<^verbatim>\<open>config_found_initially_is_unchanged\<close>,
  \<^verbatim>\<open>rewriting_config_completely_is_detected_as_change\<close> and
  \<^verbatim>\<open>deleting_config_in_same_dir_is_detected\<close>: \<^verbatim>\<open>hello.js\<close> beside its config, the config
  rewritten, and the config deleted; and a loader that watches \<^verbatim>\<open>hello.js\<close>.
\<close>

definition hello_js :: file_path where
  "hello_js = [''project'', ''hello.js'']"

definition project_config :: canonical_path where
  "project_config = [''project'', ''quick-lint-js.config'']"

definition files_before :: "(canonical_path \<times> string) list" where
  "files_before = create_file project_config ''{before: true}'' (create_file hello_js [] [])"

definition files_after :: "(canonical_path \<times> string) list" where
  "files_after = create_file project_config ''{after: true}'' files_before"

definition files_deleted :: "(canonical_path \<times> string) list" where
  "files_deleted = create_file hello_js [] []"

definition watching_hello :: "(string, nat) loader" where
  "watching_hello =
     perform_all test_collaborators (fake_filesystem files_before)
       [Watch_And_Load_For_File hello_js 1] new_loader"

section \<open>Proofs: \<^verbatim>\<open>Result<T, Error>\<close>\<close>

lemma Result_ok_from_value: "Result_ok (Result_from_value v)"
  by (simp add: Result_ok_def Result_from_value_def)

lemma Result_ok_iff: "Result_ok r \<longleftrightarrow> (\<exists>v. data r = Alternative_0 v)"
  by (cases "data r") (simp_all add: Result_ok_def)

lemma Result_not_ok_iff: "\<not> Result_ok r \<longleftrightarrow> (\<exists>err. data r = Alternative_1 err)"
  by (cases "data r") (simp_all add: Result_ok_def)

text \<open>
  What holds of construction and access: a result constructed from a value is \<open>ok\<close> and
  \<open>value()\<close> returns the value; \<open>value()\<close> under \<open>ok()\<close> and \<open>error()\<close> under \<open>!ok()\<close>
  pass their assertion; and, for a value type distinct from the error type, a result
  constructed from \<open>failed_result\<close> of a reference to a live error holds that error, and
  so does a result assigned from it when the reference is not to the error of that very
  result.
\<close>

lemma Result_value_from_value:
  "Result_value (Result_from_value v :: ('t, 'e) Result_Base) = Inr v"
  by (simp add: Result_value_def Result_ok_def Result_from_value_def)

lemma Result_value_when_ok: "Result_ok r \<Longrightarrow> \<exists>v. Result_value r = Inr v"
  by (auto simp: Result_ok_iff Result_value_def)

lemma Result_error_when_not_ok: "\<not> Result_ok r \<Longrightarrow> \<exists>err. Result_error r = Inr err"
  by (auto simp: Result_not_ok_iff Result_error_def)

lemma read_reference_destruct:
  "p \<noteq> Error_Of_Result a \<Longrightarrow> read_reference (destruct m a) p = read_reference m p"
  by (cases p) (auto simp: read_reference_def destruct_def)

lemma Result_from_error_stores:
  assumes "\<not> same_type" and "results m a = None"
    and "read_reference m (e_ref x) = Inr err"
  shows "\<exists>m'. Result_from_error same_type moved_from m a x = Inr m'
           \<and> error_at m' a = Inr err"
  using assms
  by (simp add: Result_from_error_def forward_error_def in_place_type_Error_def error_at_def
      Result_error_def Result_ok_def)

lemma Result_assign_error_stores:
  assumes "\<not> same_type" and "results m a = Some r0" and "e_ref x \<noteq> Error_Of_Result a"
    and "read_reference m (e_ref x) = Inr err"
  shows "\<exists>m'. Result_assign_error same_type moved_from m a x = Inr m'
           \<and> error_at m' a = Inr err"
  using assms
  by (simp add: Result_assign_error_def forward_error_def read_reference_destruct
      in_place_type_Error_def error_at_def Result_error_def Result_ok_def)

lemma Result_assign_error_aliased:
  assumes "results m a = Some r0"
  shows "Result_assign_error same_type moved_from m a (failed_result c (Error_Of_Result a)) =
           Inl Dangling_Reference"
  using assms
  by (simp add: Result_assign_error_def forward_error_def read_reference_def destruct_def
      failed_result_def)

text \<open>
  C9. The claim fails for the assignment that \<^verbatim>\<open>result.h\<close> itself calls a landmine
  (the \<^verbatim>\<open>FIXME\<close> above \<^verbatim>\<open>operator=\<close>): \<^verbatim>\<open>r = failed_result(std::move(r).error())\<close>, on
  a result \<open>r\<close> that holds the error \<^verbatim>\<open>"ENOENT"\<close>, with a value type (\<open>nat\<close>) distinct from
  the error type (\<open>string\<close>). \<open>error()\<close> passes its assertion and returns a reference to
  the error inside \<open>r\<close>; the assignment then destroys that error before it constructs the
  new one from the reference, which by then refers to no live object. So the assignment
  does not leave \<open>r\<close> with \<open>error()\<close> returning \<^verbatim>\<open>"ENOENT"\<close>: it reads a destroyed object,
  whether the reference is forwarded as an rvalue or, as in the spelling of the comment
  (\<^verbatim>\<open>std::move(r.error())\<close>, a const rvalue), copied from.
  The same assignment from an error object of its own, of the same value, leaves \<open>r\<close>
  with that error.
\<close>

theorem Result_assign_error_from_own_error:
  "error_at landmine 0 = Inr ''ENOENT''
   \<and> Result_error_reference landmine 0 = Inr (Error_Of_Result 0)
   \<and> Result_assign_error False (\<lambda>_. []) landmine 0 (failed_result Rvalue (Error_Of_Result 0)) =
       Inl Dangling_Reference
   \<and> Result_assign_error False (\<lambda>_. []) landmine 0 (failed_result Lvalue (Error_Of_Result 0)) =
       Inl Dangling_Reference
   \<and> (\<exists>m'. Result_assign_error False (\<lambda>_. []) landmine 0 (failed_result Rvalue (Error_Object 1)) =
              Inr m'
            \<and> error_at m' 0 = Inr ''ENOENT'')"
  by (simp add: landmine_def error_at_def Result_error_def Result_ok_def
      Result_error_reference_def Result_assign_error_def forward_error_def read_reference_def
      write_reference_def destruct_def failed_result_def in_place_type_Error_def)

section \<open>Proofs: the lex tables\<close>

subsection \<open>Character classes\<close>

lemma char_of_mem_iff: "char_of (n :: nat) \<in> set s \<longleftrightarrow> n mod 256 \<in> of_char ` set s"
proof
  assume "char_of n \<in> set s"
  then have "of_char (char_of n) \<in> (of_char ` set s :: nat set)"
    by (rule imageI)
  then show "n mod 256 \<in> of_char ` set s"
    by simp
next
  assume "n mod 256 \<in> of_char ` set s"
  then obtain x where x: "x \<in> set s" "n mod 256 = of_char x"
    by auto
  have "char_of n = char_of (n mod 256)"
    by simp
  also have "\<dots> = x"
    using x(2) by simp
  finally show "char_of n \<in> set s"
    using x(1) by simp
qed

lemma symbol_bytes:
  "list_ex (\<lambda>symbol. char_of (c :: nat) \<in> set symbol) symbols
     \<longleftrightarrow> c mod 256 \<in> {33, 37, 38, 43, 61, 62, 94, 124}"
  unfolding symbols_def char_of_mem_iff by (simp add: insert_commute) blast

lemma classify_character_byte:
  "c < 256 \<Longrightarrow> classify_character c t =
     (if c \<in> {33, 37, 38, 43, 61, 62, 94, 124}
      then t\<lparr>max_character_class := (max_character_class t + 1) mod 256,
             character_classes :=
               (character_classes t)(c := (max_character_class t + 1) mod 256)\<rparr>
      else t)"
  unfolding classify_character_def symbol_bytes by (simp add: Let_def)

lemma classify_characters_from_numeral:
  "classify_characters_from (numeral k) t =
     (if (numeral k :: nat) < 256
      then classify_characters_from (numeral (k + num.One)) (classify_character (numeral k) t)
      else t)"
  by (subst classify_characters_from.simps) simp

lemma classify_characters_from_0:
  "classify_characters_from 0 t =
     classify_characters_from 2 (classify_character 1 (classify_character 0 t))"
  by (subst classify_characters_from.simps, subst classify_characters_from.simps)
     (simp add: numeral_2_eq_2)

lemma classify_characters_empty_tables:
  "classify_characters empty_tables =
     empty_tables\<lparr>max_character_class := 8, character_classes := symbol_classes\<rparr>"
  unfolding classify_characters_def empty_tables_def classify_characters_from_0
    symbol_classes_def
  by (simp add: classify_characters_from_numeral classify_character_byte
        flip: numeral_2_eq_2)

subsection \<open>States\<close>

lemma strict_prefixes:
  "map is_strict_prefix_of_any_symbol symbols =
    [True, True, False, True, False, True, True, False, False, True, False, False,
     True, True, False, False, True, False, True, False, True, False, True, False,
     True, False, True, False]"
  by (simp add: symbols_def is_strict_prefix_of_any_symbol_def starts_with_def)

lemma map_with_flags:
  "map (\<lambda>x. g (f x) x) xs = map (\<lambda>(b, x). g b x) (zip (map f xs) xs)"
  by (induction xs) auto

lemma terminal_states:
  "map (\<lambda>symbol. \<lparr>kind = (if is_strict_prefix_of_any_symbol symbol
                            then non_unique_terminal else unique_terminal),
                   history = symbol\<rparr>) symbols =
   map (\<lambda>(b, symbol). \<lparr>kind = (if b then non_unique_terminal else unique_terminal),
                        history = symbol\<rparr>)
     (zip (map is_strict_prefix_of_any_symbol symbols) symbols)"
  by (rule map_with_flags)

lemma compute_states_result:
  "compute_states (t\<lparr>states := []\<rparr>) =
     Inr (t\<lparr>states := generated_states, unique_terminal_state_count := 14,
            intermediate_or_non_unique_terminal_state_count := 15\<rparr>)"
  unfolding compute_states_def terminal_states strict_prefixes
  by (simp add: symbols_def generated_states_def add_intermediate_state_def std_sort_def
        state_less_def Let_def)

subsection \<open>Transitions\<close>

lemma replicate_numeral: "replicate (numeral k) x = x # replicate (pred_numeral k) x"
  by (simp add: numeral_eq_Suc)

lemma compute_transition_table_result:
  "compute_transition_table
     \<lparr>character_classes = symbol_classes, max_character_class = 8,
      states = generated_states,
      intermediate_or_non_unique_terminal_state_count = 15,
      unique_terminal_state_count = 14,
      transition_table = []\<rparr> =
   Inr \<lparr>character_classes = symbol_classes, max_character_class = 8,
        states = generated_states,
        intermediate_or_non_unique_terminal_state_count = 15,
        unique_terminal_state_count = 14,
        transition_table = generated_transition_table\<rparr>"
  unfolding compute_transition_table_def
  by (simp add: symbols_def generated_states_def generated_transition_table_def
        transition_step_def find_state_index_def at_def symbol_classes_def
        retract_def table_broken_def Let_def replicate_numeral)

lemma generate_lex_tables_result:
  "generate_lex_tables =
     Inr \<lparr>character_classes = symbol_classes, max_character_class = 8,
          states = generated_states,
          intermediate_or_non_unique_terminal_state_count = 15,
          unique_terminal_state_count = 14,
          transition_table = generated_transition_table\<rparr>"
proof -
  have "classify_characters empty_tables =
      \<lparr>character_classes = symbol_classes, max_character_class = 8, states = [],
       intermediate_or_non_unique_terminal_state_count = 0,
       unique_terminal_state_count = 0, transition_table = []\<rparr>\<lparr>states := []\<rparr>"
    unfolding classify_characters_empty_tables by (simp add: empty_tables_def)
  then have "compute_states (classify_characters empty_tables) =
      Inr \<lparr>character_classes = symbol_classes, max_character_class = 8,
           states = generated_states,
           intermediate_or_non_unique_terminal_state_count = 15,
           unique_terminal_state_count = 14, transition_table = []\<rparr>"
    by (simp only: compute_states_result) simp
  then show ?thesis
    by (simp add: generate_lex_tables_def compute_transition_table_result)
qed

lemma symbol_bytes_classes:
  "map (\<lambda>c. symbol_classes (of_char c)) ''!%&+=>^|'' = [1, 2, 3, 4, 5, 6, 7, 8]"
  by (simp add: symbol_classes_def)

lemma symbol_bytes_set: "set (concat symbols) = set ''!%&+=>^|''"
  by (simp add: symbols_def insert_commute)

lemma written_cells:
  "length (concat symbols) = 56"
  "length (filter (\<lambda>v. v \<noteq> retract \<and> v \<noteq> table_broken)
             (concat generated_transition_table)) = 28"
  by (simp_all add: symbols_def generated_transition_table_def retract_def table_broken_def)

text \<open>
  C10. For the fixed symbol list, \<open>classify_characters\<close>, \<open>compute_states\<close> and
  \<open>compute_transition_table\<close> run to the end: no assertion fails, in particular not the
  one that compares a cell already written with the state about to be written (the 56
  writes of the 28 symbols land in 28 cells, so 28 of them meet a cell written before
  and find the same state there). The resulting table is the one given, and the eight
  bytes that occur in the symbols have the classes 1 to 8: pairwise distinct, and none
  of them the class 0 of the other bytes.
\<close>

theorem compute_transition_table_consistent:
  "\<exists>t. generate_lex_tables = Inr t
     \<and> transition_table t = generated_transition_table
     \<and> states t = generated_states
     \<and> set (concat symbols) = set ''!%&+=>^|''
     \<and> map (\<lambda>c. character_classes t (of_char c)) ''!%&+=>^|'' = [1, 2, 3, 4, 5, 6, 7, 8]
     \<and> length (concat symbols) = 56
     \<and> length (filter (\<lambda>v. v \<noteq> retract \<and> v \<noteq> table_broken)
                  (concat (transition_table t))) = 28"
proof -
  let ?t = "\<lparr>character_classes = symbol_classes, max_character_class = 8,
            states = generated_states,
            intermediate_or_non_unique_terminal_state_count = 15,
            unique_terminal_state_count = 14,
            transition_table = generated_transition_table\<rparr>"
  have result: "generate_lex_tables = Inr ?t"
    by (rule generate_lex_tables_result)
  have table: "transition_table ?t = generated_transition_table"
    and sts: "states ?t = generated_states"
    by simp_all
  have classes:
    "map (\<lambda>c. character_classes ?t (of_char c)) ''!%&+=>^|'' = [1, 2, 3, 4, 5, 6, 7, 8]"
    by (simp only: lex_tables.simps symbol_bytes_classes)
  have cells: "length (filter (\<lambda>v. v \<noteq> retract \<and> v \<noteq> table_broken)
      (concat (transition_table ?t))) = 28"
    by (simp only: lex_tables.simps written_cells)
  show ?thesis
    by (rule exI [of _ ?t])
       (intro conjI result table sts symbol_bytes_set classes written_cells(1) cells)
qed

section \<open>Proofs: the configuration loader\<close>

subsection \<open>The rule of \<open>refresh\<close>\<close>

lemma emits_change_iff:
  "emits_change ext c old new \<longleftrightarrow>
     (config_file_of new \<noteq> config_path_of_state old
      \<or> (case new of Found p bytes \<Rightarrow> old = resolved_ok p \<and> bytes_changed ext c p bytes | _ \<Rightarrow> False)
      \<or> error_of new \<noteq> error_of_state old)"
  by (cases old; cases new) (auto simp: config_path_of_state_def error_of_state_def)

lemma resolution_differs_iff:
  "resolution_differs ext fs l w \<longleftrightarrow>
     emits_change ext (cache l) (state_of w) (resolve (platform ext) fs w)"
  by (simp add: resolution_differs_def emits_change_iff Let_def)

text \<open>
  C1. For every watch, every loader state and every filesystem state at the time of the
  scan, \<open>refresh\<close> returns a change record for exactly the registered watches whose
  re-resolved state differs from the remembered one, in the order of registration: the
  resolved config path differs, or the path is the same and the hash of the bytes of the
  config differs from the one the cache holds, or the error differs (none before and one
  now, one before and none now, or another error). The record carries the path and the
  token of the watch, and the new config file or the new error.
\<close>

theorem refresh_emits_iff_resolution_differs:
  "fst (refresh ext fs l) =
     map (\<lambda>w. change_for w (resolve (platform ext) fs w))
       (filter (resolution_differs ext fs l) (watches l))"
proof -
  have "filter (resolution_differs ext fs l) (watches l) =
      filter (\<lambda>w. emits_change ext (cache l) (state_of w) (resolve (platform ext) fs w))
        (watches l)"
    by (rule filter_cong) (simp_all add: resolution_differs_iff)
  then show ?thesis
    by (simp add: refresh_def Let_def)
qed

subsection \<open>The project of the tests\<close>

lemma ancestor_directories_simps:
  "ancestor_directories [] = [[]]"
  "ancestor_directories [a] = [[a], []]"
  "ancestor_directories [a, b] = [[a, b], [a], []]"
  by (simp_all add: ancestor_directories_def upt_rec)

lemmas loader_eval =
  perform_all_def watch_and_load_for_file_def watch_and_load_def load_resolved_def
  get_or_load_def resolve_path_def resolve_def fake_filesystem_def files_before_def
  files_after_def files_deleted_def create_file_def hello_js_def project_config_def
  ancestor_directories_simps config_file_name_def new_loader_def fake_exists_def
  state_of_def make_entry_def test_collaborators_def bytes_changed_def
  resolution_differs_def config_path_of_state_def error_of_state_def change_for_def Let_def

lemma watching_hello_state:
  "map state_of (watches watching_hello) = [resolved_ok project_config]"
  by (simp add: watching_hello_def loader_eval)

theorem refresh_emits_iff_resolution_differs_witness:
  "fst (refresh test_collaborators (fake_filesystem files_after) watching_hello) =
     [\<lparr>watched_path = hello_js, change_token = 1, config_file = Some project_config,
       error = None\<rparr>]
   \<and> fst (refresh test_collaborators (fake_filesystem files_deleted) watching_hello) =
     [\<lparr>watched_path = hello_js, change_token = 1, config_file = None, error = None\<rparr>]
   \<and> fst (refresh test_collaborators (fake_filesystem files_before) watching_hello) = []"
  using refresh_emits_iff_resolution_differs
          [of test_collaborators "fake_filesystem files_after" watching_hello]
        refresh_emits_iff_resolution_differs
          [of test_collaborators "fake_filesystem files_deleted" watching_hello]
        refresh_emits_iff_resolution_differs
          [of test_collaborators "fake_filesystem files_before" watching_hello]
  by (simp add: watching_hello_def loader_eval)

end
